theory Spec2Isabelle
  imports Complex_Main "HOL-Library.Sublist"
begin

section \<open>Python values, outcomes and the outside world\<close>

text \<open>
  The module \<^verbatim>\<open>utils/model.py\<close> is a layer over an external modelling library.  Its own
  control flow is embedded here; what it calls in other modules (the tokenizer and model
  objects, the loaders, \<^verbatim>\<open>utils\<close>, \<^verbatim>\<open>consts\<close>, \<^verbatim>\<open>time\<close>) is a parameter.

  A Python \<^verbatim>\<open>str\<close> is a \<open>string\<close>, one element per code point.  Python's unbounded
  \<^verbatim>\<open>int\<close> is \<open>int\<close>; a \<^verbatim>\<open>float\<close> is only stored, subtracted and compared with zero, and is
  a \<open>rat\<close>.
\<close>

datatype pyerror =
    ValueError string
  | ZeroDivisionError
  | LibraryError string

text \<open>
  What a call does: it returns a value, raises an exception, ends the process through
  \<^verbatim>\<open>exit(n)\<close>, or never returns because it waits for a lock that is held.
\<close>

datatype 'a outcome = Return 'a | Raise pyerror | Exit int | Blocks

type_synonym token = int

datatype loglevel = DEBUG | INFO | WARNING | ERROR

record GenerationConfig =
  temperature :: rat
  top_p :: rat
  top_k :: int
  num_beams :: int
  bos_token_id :: int
  eos_token_id :: int
  pad_token_id :: int
  max_new_tokens :: int
  min_new_tokens :: int
  do_sample :: bool
  repetition_penalty :: rat
  frequency_penalty :: rat

text \<open>\<^verbatim>\<open>class ModelResponse(BaseModel)\<close>\<close>

record ModelResponse =
  context_token :: int
  new_token :: int
  response_text :: string

text \<open>
  One constructor for each logging statement of the module, carrying the values its
  f-string interpolates; \<open>Msg_external\<close> is a line written by \<^verbatim>\<open>log_generation_config\<close>.
\<close>

datatype logmsg =
    Msg_loading_model
  | Msg_attrs_missing
  | Msg_version_check_failed string "string option"
  | Msg_current_config "string option" "string option" "string option"
  | Msg_test_output ModelResponse
  | Msg_debug_ground_truth string
  | Msg_output_not_correct
  | Msg_input string
  | Msg_ground_truth string
  | Msg_current_output ModelResponse
  | Msg_speed rat rat int int
  | Msg_external string

type_synonym logrec = "loglevel \<times> logmsg"

text \<open>The external calls whose occurrence is observed: a trace kept beside the program.\<close>

datatype call =
    Call_generate "token list" GenerationConfig
  | Call_detect_degeneration "token list" string

text \<open>
  The tokenizer object: \<open>encode tk prompt\<close> is
  \<^verbatim>\<open>tokenizer(prompt, return_tensors="pt").input_ids[0]\<close>, \<open>decode\<close> is \<^verbatim>\<open>tokenizer.decode\<close>.
\<close>

record Tokenizer =
  encode :: "string \<Rightarrow> pyerror + token list"
  decode :: "token list \<Rightarrow> pyerror + string"

text \<open>
  The model object.  \<open>generate md toks gc r\<close> is \<^verbatim>\<open>model.generate(..., generation_config=gc)[0]\<close>
  run in the library state \<open>r\<close> (sampler state, device memory): it returns the token
  sequence or raises, and leaves a new library state.  \<open>config md a\<close> is the attribute \<open>a\<close>
  of \<^verbatim>\<open>model.config\<close>: \<open>None\<close> when the attribute is missing, \<open>Some None\<close> when it is
  Python's \<^verbatim>\<open>None\<close>, \<open>Some (Some s)\<close> for the string \<open>s\<close>.
\<close>

record 'r Model =
  generate :: "token list \<Rightarrow> GenerationConfig \<Rightarrow> 'r \<Rightarrow> (pyerror + token list) \<times> 'r"
  config :: "string \<rightharpoonup> string option"

text \<open>\<^verbatim>\<open>consts.get_test_case_by_model_version\<close> returns an object with these three fields.\<close>

record TestCase =
  generation_config :: GenerationConfig
  test_input :: string
  test_output :: string

text \<open>
  The functions of other modules.  A loader takes the path and the trust flag (the other
  arguments are constants in the source) and runs in the library state.  The calls into
  the modelling library (the loaders, the tokenizer, \<^verbatim>\<open>generate\<close>, \<^verbatim>\<open>decode\<close>) and the
  lookup in the registry of test cases may raise; the helpers of \<^verbatim>\<open>utils\<close> and
  \<^verbatim>\<open>consts.get_prompt\<close> are taken to return.
\<close>

record 'r Lib =
  LlamaTokenizer_from_pretrained :: "string \<Rightarrow> bool \<Rightarrow> 'r \<Rightarrow> (pyerror + Tokenizer) \<times> 'r"
  AutoTokenizer_from_pretrained :: "string \<Rightarrow> bool \<Rightarrow> 'r \<Rightarrow> (pyerror + Tokenizer) \<times> 'r"
  AutoGPTQForCausalLM_from_quantized :: "string \<Rightarrow> bool \<Rightarrow> 'r \<Rightarrow> (pyerror + 'r Model) \<times> 'r"
  LlamaForCausalLM_from_pretrained :: "string \<Rightarrow> bool \<Rightarrow> 'r \<Rightarrow> (pyerror + 'r Model) \<times> 'r"
  AutoModelForCausalLM_from_pretrained :: "string \<Rightarrow> bool \<Rightarrow> 'r \<Rightarrow> (pyerror + 'r Model) \<times> 'r"
  time_time :: "'r \<Rightarrow> rat \<times> 'r"
  log_generation_config :: "GenerationConfig \<Rightarrow> logrec list"
  split_response :: "string \<Rightarrow> string \<Rightarrow> string"
  detect_degeneration :: "token list \<Rightarrow> string \<Rightarrow> bool"
  get_test_case_by_model_version :: "string \<Rightarrow> pyerror + TestCase"
  get_prompt :: "string \<Rightarrow> string \<Rightarrow> string"

text \<open>
  Everything outside the service object that a call can change: the library state, the
  log, standard output, and the trace of observed calls.
\<close>

record 'r world =
  lib_state :: 'r
  logs :: "logrec list"
  stdout :: "string list"
  calls :: "call list"

section \<open>The configuration record\<close>

text \<open>\<^verbatim>\<open>@dataclass class SakuraModelConfig\<close>, with its defaults.\<close>

record SakuraModelConfig =
  model_name_or_path :: string
  use_gptq_model :: bool
  trust_remote_code :: bool
  llama :: bool
  text_length :: int
  model_name :: "string option"
  model_quant :: "string option"
  model_version :: string

definition SakuraModelConfig_new :: "string \<Rightarrow> bool \<Rightarrow> SakuraModelConfig" where
  "SakuraModelConfig_new path gptq =
     \<lparr>model_name_or_path = path, use_gptq_model = gptq, trust_remote_code = False,
      llama = False, text_length = 512, model_name = None, model_quant = None,
      model_version = ''0.8''\<rparr>"

section \<open>Loading\<close>

text \<open>
  Python's \<^verbatim>\<open>sub in s\<close> on two strings: \<open>sub\<close> occurs in \<open>s\<close> as a contiguous run, at
  some position.
\<close>

fun py_in :: "string \<Rightarrow> string \<Rightarrow> bool" where
  "py_in sub [] = (sub = [])"
| "py_in sub (c # cs) = (prefix sub (c # cs) \<or> py_in sub cs)"

definition trust_error_message :: string where
  "trust_error_message =
     ''If you use model version 0.5, 0.7 or 0.8, please add flag --trust_remote_code.''"

text \<open>
  \<^verbatim>\<open>load_model(args)\<close>.  The two conditional imports bind names only.  The check of line 47
  comes before the log line and before every loader call.
\<close>

definition load_model ::
  "'r Lib \<Rightarrow> SakuraModelConfig \<Rightarrow> 'r world \<Rightarrow> (Tokenizer \<times> 'r Model) outcome \<times> 'r world" where
  "load_model L args w =
     (if trust_remote_code args = False \<and> py_in (model_version args) ''0.5 0.7 0.8''
      then (Raise (ValueError trust_error_message), w)
      else
        let w1 = w\<lparr>logs := logs w @ [(INFO, Msg_loading_model)]\<rparr>;
            (tk_res, r1) =
              (if llama args
               then LlamaTokenizer_from_pretrained L (model_name_or_path args)
                      (trust_remote_code args) (lib_state w1)
               else AutoTokenizer_from_pretrained L (model_name_or_path args)
                      (trust_remote_code args) (lib_state w1))
        in case tk_res of
             Inl e \<Rightarrow> (Raise e, w1\<lparr>lib_state := r1\<rparr>)
           | Inr tk \<Rightarrow>
               let (md_res, r2) =
                     (if use_gptq_model args
                      then AutoGPTQForCausalLM_from_quantized L (model_name_or_path args)
                             (trust_remote_code args) r1
                      else if llama args
                      then LlamaForCausalLM_from_pretrained L (model_name_or_path args)
                             (trust_remote_code args) r1
                      else AutoModelForCausalLM_from_pretrained L (model_name_or_path args)
                             (trust_remote_code args) r1)
               in case md_res of
                    Inl e \<Rightarrow> (Raise e, w1\<lparr>lib_state := r2\<rparr>)
                  | Inr md \<Rightarrow> (Return (tk, md), w1\<lparr>lib_state := r2\<rparr>))"

section \<open>The service object\<close>

text \<open>The attributes of a \<^verbatim>\<open>SakuraModel\<close>; \<open>lock\<close> is \<open>True\<close> while the lock is held.\<close>

record 'r SakuraModel =
  cfg :: SakuraModelConfig
  lock :: bool
  tokenizer :: Tokenizer
  model :: "'r Model"

text \<open>
  \<^verbatim>\<open>SakuraModel.__init__(self, cfg)\<close>.  \<^verbatim>\<open>hijack_samplers()\<close> patches the library's samplers
  and touches nothing of the object.  The \<^verbatim>\<open>try\<close> block reads the three attributes in
  order, and its bare \<^verbatim>\<open>except\<close> is taken when one of them is missing.  \<^verbatim>\<open>self.cfg\<close> is
  the caller's record, so the three assignments at the end are visible to the caller.
\<close>

definition SakuraModel_init ::
  "'r Lib \<Rightarrow> SakuraModelConfig \<Rightarrow> 'r world \<Rightarrow> 'r SakuraModel outcome \<times> 'r world" where
  "SakuraModel_init L c w =
     (case load_model L c w of
        (Raise e, w1) \<Rightarrow> (Raise e, w1)
      | (Exit n, w1) \<Rightarrow> (Exit n, w1)
      | (Blocks, w1) \<Rightarrow> (Blocks, w1)
      | (Return (tk, md), w1) \<Rightarrow>
          (case config md ''sakura_name'' of
             None \<Rightarrow> (Exit (- 1), w1\<lparr>logs := logs w1 @ [(ERROR, Msg_attrs_missing)]\<rparr>)
           | Some name \<Rightarrow>
          (case config md ''sakura_version'' of
             None \<Rightarrow> (Exit (- 1), w1\<lparr>logs := logs w1 @ [(ERROR, Msg_attrs_missing)]\<rparr>)
           | Some version \<Rightarrow>
          (case config md ''sakura_quant'' of
             None \<Rightarrow> (Exit (- 1), w1\<lparr>logs := logs w1 @ [(ERROR, Msg_attrs_missing)]\<rparr>)
           | Some quant \<Rightarrow>
               let mismatch =
                     (Exit (- 1),
                      w1\<lparr>logs := logs w1 @
                         [(ERROR, Msg_version_check_failed (model_version c) version),
                          (ERROR, Msg_current_config name version quant)]\<rparr>)
               in case version of
                    None \<Rightarrow> mismatch
                  | Some v \<Rightarrow>
                      if model_version c \<noteq> v then mismatch
                      else (Return \<lparr>cfg = c\<lparr>model_name := name, model_version := v,
                                             model_quant := quant\<rparr>,
                                    lock = False, tokenizer = tk, model = md\<rparr>, w1)))))"

text \<open>
  The status a POSIX parent process reads after \<^verbatim>\<open>exit(n)\<close>: the low eight bits of \<open>n\<close>.
\<close>

definition exit_status :: "int \<Rightarrow> int" where
  "exit_status n = n mod 256"

section \<open>Completion\<close>

text \<open>Python's \<^verbatim>\<open>max(a, b)\<close> on two integers: \<open>b\<close> only when it is strictly larger.\<close>

definition py_max :: "int \<Rightarrow> int \<Rightarrow> int" where
  "py_max a b = (if b > a then b else a)"

text \<open>\<^verbatim>\<open>get_max_text_length(self, length)\<close>\<close>

definition get_max_text_length :: "'r SakuraModel \<Rightarrow> int \<Rightarrow> int" where
  "get_max_text_length self len = py_max (text_length (cfg self)) len"

text \<open>
  The body of the \<^verbatim>\<open>with self.lock:\<close> block of \<^verbatim>\<open>get_model_response\<close> (lines 162 to 169).
  It yields \<open>(t0, input_token_len, new_token, output, t1)\<close>, or the exception of the
  tokenizer, of \<^verbatim>\<open>generate\<close> or of \<^verbatim>\<open>decode\<close>.
\<close>

definition locked_section ::
  "'r Lib \<Rightarrow> 'r Model \<Rightarrow> Tokenizer \<Rightarrow> string \<Rightarrow> string \<Rightarrow> GenerationConfig \<Rightarrow> 'r world
     \<Rightarrow> (pyerror + rat \<times> int \<times> int \<times> string \<times> rat) \<times> 'r world" where
  "locked_section L md tk prompt version gc w =
     (let (t0, r0) = time_time L (lib_state w);
          w0 = w\<lparr>lib_state := r0\<rparr>
      in case encode tk prompt of
           Inl e \<Rightarrow> (Inl e, w0)
         | Inr input_token \<Rightarrow>
             let input_token_len = int (length input_token);
                 (gen_res, r1) = generate md input_token gc r0;
                 w1 = w0\<lparr>lib_state := r1, calls := calls w0 @ [Call_generate input_token gc]\<rparr>
             in case gen_res of
                  Inl e \<Rightarrow> (Inl e, w1)
                | Inr generation \<Rightarrow>
                    let new_tok = int (length generation) - input_token_len
                    in case decode tk generation of
                         Inl e \<Rightarrow> (Inl e, w1)
                       | Inr response \<Rightarrow>
                           let output = split_response L response version;
                               (t1, r2) = time_time L r1
                           in (Inr (t0, input_token_len, new_tok, output, t1),
                               w1\<lparr>lib_state := r2\<rparr>))"

text \<open>
  \<^verbatim>\<open>get_model_response(self, model, tokenizer, prompt, model_version, generation_config,
  text_length, is_print_speed)\<close>.  The lock is taken on entry and released on every way out
  of the block.  The parameter \<open>text_length\<close> is not read by the body.  The speed line
  divides by \<open>t1 - t0\<close>.
\<close>

definition get_model_response ::
  "'r Lib \<Rightarrow> 'r SakuraModel \<Rightarrow> 'r Model \<Rightarrow> Tokenizer \<Rightarrow> string \<Rightarrow> string \<Rightarrow> GenerationConfig
     \<Rightarrow> int \<Rightarrow> bool \<Rightarrow> 'r world \<Rightarrow> ModelResponse outcome \<times> 'r SakuraModel \<times> 'r world" where
  "get_model_response L self md tk prompt version gc text_len is_print_speed w =
     (if lock self then (Blocks, self, w)
      else
        let self1 = self\<lparr>lock := True\<rparr>;
            (body, w1) = locked_section L md tk prompt version gc w;
            self2 = self1\<lparr>lock := False\<rparr>
        in case body of
             Inl e \<Rightarrow> (Raise e, self2, w1)
           | Inr (t0, input_token_len, new_tok, output, t1) \<Rightarrow>
               let resp = \<lparr>context_token = input_token_len, new_token = new_tok,
                           response_text = output\<rparr>
               in if is_print_speed
                  then if t1 - t0 = 0 then (Raise ZeroDivisionError, self2, w1)
                       else (Return resp, self2,
                             w1\<lparr>logs := logs w1 @
                                [(INFO, Msg_speed (t1 - t0) (of_int new_tok / (t1 - t0))
                                          new_tok input_token_len)]\<rparr>)
                  else (Return resp, self2, w1))"

text \<open>\<^verbatim>\<open>completion(self, prompt, generation_config, is_print_speed)\<close>\<close>

definition completion ::
  "'r Lib \<Rightarrow> 'r SakuraModel \<Rightarrow> string \<Rightarrow> GenerationConfig \<Rightarrow> bool \<Rightarrow> 'r world
     \<Rightarrow> ModelResponse outcome \<times> 'r SakuraModel \<times> 'r world" where
  "completion L self prompt gc is_print_speed w =
     (let w0 = w\<lparr>logs := logs w @ log_generation_config L gc\<rparr>
      in get_model_response L self (model self) (tokenizer self) prompt
           (model_version (cfg self)) gc
           (get_max_text_length self (int (length prompt))) is_print_speed w0)"

section \<open>The self-test\<close>

text \<open>\<^verbatim>\<open>test_loaded(self)\<close>: it returns \<open>(prompt, test_output, output)\<close>.\<close>

definition test_loaded ::
  "'r Lib \<Rightarrow> 'r SakuraModel \<Rightarrow> 'r world
     \<Rightarrow> (string \<times> string \<times> ModelResponse) outcome \<times> 'r SakuraModel \<times> 'r world" where
  "test_loaded L self w =
     (case get_test_case_by_model_version L (model_version (cfg self)) of
        Inl e \<Rightarrow> (Raise e, self, w)
      | Inr testcase \<Rightarrow>
          let gc = generation_config testcase;
              tin = test_input testcase;
              tout = test_output testcase;
              prompt = get_prompt L tin (model_version (cfg self))
          in case completion L self prompt gc False w of
               (Return output, self1, w1) \<Rightarrow> (Return (prompt, tout, output), self1, w1)
             | (Raise e, self1, w1) \<Rightarrow> (Raise e, self1, w1)
             | (Exit n, self1, w1) \<Rightarrow> (Exit n, self1, w1)
             | (Blocks, self1, w1) \<Rightarrow> (Blocks, self1, w1))"

text \<open>
  \<^verbatim>\<open>check_model_by_magic(self)\<close>.  The two debug lines go to the module's logger, the four
  warnings to the root logger; all six are records of the one log here.
\<close>

definition check_model_by_magic ::
  "'r Lib \<Rightarrow> 'r SakuraModel \<Rightarrow> 'r world \<Rightarrow> bool outcome \<times> 'r SakuraModel \<times> 'r world" where
  "check_model_by_magic L self w =
     (case test_loaded L self w of
        (Raise e, self1, w1) \<Rightarrow> (Raise e, self1, w1)
      | (Exit n, self1, w1) \<Rightarrow> (Exit n, self1, w1)
      | (Blocks, self1, w1) \<Rightarrow> (Blocks, self1, w1)
      | (Return (prompt, ground_truth, output), self1, w1) \<Rightarrow>
          let w2 = w1\<lparr>logs := logs w1 @
                      [(DEBUG, Msg_test_output output),
                       (DEBUG, Msg_debug_ground_truth ground_truth)]\<rparr>;
              ret = (ground_truth = response_text output)
          in if \<not> ret
             then (Return ret, self1,
                   w2\<lparr>logs := logs w2 @
                      [(WARNING, Msg_output_not_correct),
                       (WARNING, Msg_input prompt),
                       (WARNING, Msg_ground_truth ground_truth),
                       (WARNING, Msg_current_output output)]\<rparr>)
             else (Return ret, self1, w2))"

section \<open>The anti-degeneration path\<close>

definition backup_generation_config_stage2 :: "int \<Rightarrow> GenerationConfig" where
  "backup_generation_config_stage2 text_len =
     \<lparr>temperature = 0.1, top_p = 0.3, top_k = 40, num_beams = 1, bos_token_id = 1,
      eos_token_id = 2, pad_token_id = 0, max_new_tokens = 2 * text_len,
      min_new_tokens = 1, do_sample = True, repetition_penalty = 1.0,
      frequency_penalty = 0.05\<rparr>"

definition backup_generation_config_stage3 :: "int \<Rightarrow> GenerationConfig" where
  "backup_generation_config_stage3 text_len =
     \<lparr>temperature = 0.1, top_p = 0.3, top_k = 40, num_beams = 1, bos_token_id = 1,
      eos_token_id = 2, pad_token_id = 0, max_new_tokens = 2 * text_len,
      min_new_tokens = 1, do_sample = True, repetition_penalty = 1.0,
      frequency_penalty = 0.2\<rparr>"

text \<open>
  \<^verbatim>\<open>model.generate(**tokenizer(prompt, return_tensors="pt").to(model.device),
  generation_config=gc)[0]\<close>, the expression of lines 213 and 221.
\<close>

definition generate_from_prompt ::
  "'r Model \<Rightarrow> Tokenizer \<Rightarrow> string \<Rightarrow> GenerationConfig \<Rightarrow> 'r world
     \<Rightarrow> (pyerror + token list) \<times> 'r world" where
  "generate_from_prompt md tk prompt gc w =
     (case encode tk prompt of
        Inl e \<Rightarrow> (Inl e, w)
      | Inr input_token \<Rightarrow>
          let (gen_res, r1) = generate md input_token gc (lib_state w)
          in (gen_res, w\<lparr>lib_state := r1, calls := calls w @ [Call_generate input_token gc]\<rparr>))"

text \<open>
  The \<^verbatim>\<open>while\<close> loop of lines 216 to 221, entered with the current \<open>stage\<close> and
  \<open>generation\<close>.  It yields the generation the loop ends with.  Past stage 2 the guard of
  line 218 leaves the loop, so the index \<open>stage - 1\<close> into the two backup configurations
  is 0 or 1.
\<close>

function degeneration_loop ::
  "'r Lib \<Rightarrow> 'r Model \<Rightarrow> Tokenizer \<Rightarrow> string \<Rightarrow> string \<Rightarrow> GenerationConfig list \<Rightarrow> nat
     \<Rightarrow> token list \<Rightarrow> 'r world \<Rightarrow> (pyerror + token list) \<times> 'r world" where
  "degeneration_loop L md tk prompt version backup stage generation w =
     (let w1 = w\<lparr>calls := calls w @ [Call_detect_degeneration generation version]\<rparr>
      in if detect_degeneration L generation version
         then if stage + 1 > 2
              then (Inr generation,
                    w1\<lparr>stdout := stdout w1 @ [''model degeneration cannot be avoided.'']\<rparr>)
              else (case generate_from_prompt md tk prompt (backup ! (stage + 1 - 1)) w1 of
                      (Inl e, w2) \<Rightarrow> (Inl e, w2)
                    | (Inr generation', w2) \<Rightarrow>
                        degeneration_loop L md tk prompt version backup (stage + 1)
                          generation' w2)
         else (Inr generation, w1))"
  by pat_completeness auto
termination
  by (relation "measure (\<lambda>(L, md, tk, prompt, version, backup, stage, generation, w). 3 - stage)")
     auto

text \<open>
  \<^verbatim>\<open>get_model_response_anti_degen(self, model, tokenizer, prompt, model_version,
  generation_config, text_length)\<close>.  It reads nothing of \<open>self\<close> and takes no lock; it
  returns the text, not a \<open>ModelResponse\<close>.
\<close>

definition get_model_response_anti_degen ::
  "'r Lib \<Rightarrow> 'r Model \<Rightarrow> Tokenizer \<Rightarrow> string \<Rightarrow> string \<Rightarrow> GenerationConfig \<Rightarrow> int \<Rightarrow> 'r world
     \<Rightarrow> string outcome \<times> 'r world" where
  "get_model_response_anti_degen L md tk prompt version gc text_len w =
     (let backup_generation_config =
            [backup_generation_config_stage2 text_len, backup_generation_config_stage3 text_len]
      in case generate_from_prompt md tk prompt gc w of
           (Inl e, w1) \<Rightarrow> (Raise e, w1)
         | (Inr generation, w1) \<Rightarrow>
             let (res, w2) =
                   (if int (length generation) > 2 * text_len
                    then degeneration_loop L md tk prompt version backup_generation_config 0
                           generation w1
                    else (Inr generation, w1))
             in case res of
                  Inl e \<Rightarrow> (Raise e, w2)
                | Inr final \<Rightarrow>
                    (case decode tk final of
                       Inl e \<Rightarrow> (Raise e, w2)
                     | Inr response \<Rightarrow> (Return (split_response L response version), w2)))"

section \<open>Reading the trace of calls\<close>

text \<open>The configurations of the \<^verbatim>\<open>generate\<close> calls of a trace, in order.\<close>

fun generate_calls :: "call list \<Rightarrow> GenerationConfig list" where
  "generate_calls [] = []"
| "generate_calls (Call_generate toks gc # cs) = gc # generate_calls cs"
| "generate_calls (Call_detect_degeneration g v # cs) = generate_calls cs"

text \<open>The arguments of the \<^verbatim>\<open>detect_degeneration\<close> calls of a trace, in order.\<close>

fun detector_calls :: "call list \<Rightarrow> (token list \<times> string) list" where
  "detector_calls [] = []"
| "detector_calls (Call_generate toks gc # cs) = detector_calls cs"
| "detector_calls (Call_detect_degeneration g v # cs) = (g, v) # detector_calls cs"

section \<open>A concrete instance\<close>

text \<open>
  A tokenizer, a model and a library small enough to run by rewriting.  The tokenizer maps
  every character to token 7 and every token to the letter x.  The model appends five
  tokens to its input; the first of them is the library state when the configuration
  samples, and 1 otherwise, so the model is deterministic exactly without sampling.  Its
  checkpoint reports version 0.9.  The detector flags every sequence.
\<close>

definition demo_tokenizer :: Tokenizer where
  "demo_tokenizer =
     \<lparr>encode = (\<lambda>s. Inr (map (\<lambda>c. 7) s)),
      decode = (\<lambda>ts. Inr (map (\<lambda>t. CHR ''x'') ts))\<rparr>"

definition demo_model :: "nat Model" where
  "demo_model =
     \<lparr>generate = (\<lambda>toks gc r.
         (Inr (toks @ (if do_sample gc then [int r] else [1]) @ [2, 2, 2, 2]), Suc r)),
      config = [''sakura_name'' \<mapsto> Some ''Sakura-13B'', ''sakura_version'' \<mapsto> Some ''0.9'',
                ''sakura_quant'' \<mapsto> Some ''Q4'']\<rparr>"

definition demo_greedy :: GenerationConfig where
  "demo_greedy =
     \<lparr>temperature = 1, top_p = 1, top_k = 50, num_beams = 1, bos_token_id = 1,
      eos_token_id = 2, pad_token_id = 0, max_new_tokens = 512, min_new_tokens = 1,
      do_sample = False, repetition_penalty = 1, frequency_penalty = 0\<rparr>"

definition demo_lib :: "nat Lib" where
  "demo_lib =
     \<lparr>LlamaTokenizer_from_pretrained = (\<lambda>path trust r. (Inr demo_tokenizer, Suc r)),
      AutoTokenizer_from_pretrained = (\<lambda>path trust r. (Inr demo_tokenizer, Suc r)),
      AutoGPTQForCausalLM_from_quantized = (\<lambda>path trust r. (Inr demo_model, Suc r)),
      LlamaForCausalLM_from_pretrained = (\<lambda>path trust r. (Inr demo_model, Suc r)),
      AutoModelForCausalLM_from_pretrained = (\<lambda>path trust r. (Inr demo_model, Suc r)),
      time_time = (\<lambda>r. (of_nat r, Suc r)),
      log_generation_config = (\<lambda>gc. [(INFO, Msg_external ''generation config'')]),
      split_response = (\<lambda>response version. drop 4 response),
      detect_degeneration = (\<lambda>generation version. True),
      get_test_case_by_model_version = (\<lambda>version.
         if version = ''0.9''
         then Inr \<lparr>generation_config = demo_greedy, test_input = ''hi'',
                   test_output = ''xxxxx''\<rparr>
         else if version = ''0.10''
         then Inr \<lparr>generation_config = demo_greedy, test_input = ''hi'',
                   test_output = ''yes''\<rparr>
         else Inl (LibraryError ''no test case'')),
      get_prompt = (\<lambda>input version. ''<'' @ input @ ''>'')\<rparr>"

definition demo_cfg :: SakuraModelConfig where
  "demo_cfg = (SakuraModelConfig_new ''sakura'' False)\<lparr>model_version := ''0.9''\<rparr>"

definition demo_world :: "nat world" where
  "demo_world = \<lparr>lib_state = 0, logs = [], stdout = [], calls = []\<rparr>"

definition demo_service :: "nat SakuraModel" where
  "demo_service =
     \<lparr>cfg = demo_cfg\<lparr>model_name := Some ''Sakura-13B'', model_quant := Some ''Q4''\<rparr>,
      lock = False, tokenizer = demo_tokenizer, model = demo_model\<rparr>"

text \<open>The same service with a configured default text length of 1.\<close>

definition short_service :: "nat SakuraModel" where
  "short_service = demo_service\<lparr>cfg := (cfg demo_service)\<lparr>text_length := 1\<rparr>\<rparr>"

text \<open>The same service declared as version 0.10, whose test case expects another text.\<close>

definition other_service :: "nat SakuraModel" where
  "other_service = demo_service\<lparr>cfg := (cfg demo_service)\<lparr>model_version := ''0.10''\<rparr>\<rparr>"

section \<open>Facts about the instance\<close>

lemmas demo_defs = demo_lib_def demo_model_def demo_tokenizer_def demo_greedy_def
  demo_cfg_def demo_world_def demo_service_def SakuraModelConfig_new_def

lemma demo_load:
  "load_model demo_lib demo_cfg demo_world =
     (Return (demo_tokenizer, demo_model),
      \<lparr>lib_state = 2, logs = [(INFO, Msg_loading_model)], stdout = [], calls = []\<rparr>)"
  by (simp add: load_model_def demo_lib_def demo_cfg_def demo_world_def
        SakuraModelConfig_new_def)

lemma demo_load_mismatch:
  "load_model demo_lib (demo_cfg\<lparr>model_version := ''0.10''\<rparr>) demo_world =
     (Return (demo_tokenizer, demo_model),
      \<lparr>lib_state = 2, logs = [(INFO, Msg_loading_model)], stdout = [], calls = []\<rparr>)"
  by (simp add: load_model_def demo_lib_def demo_cfg_def demo_world_def
        SakuraModelConfig_new_def)

lemma demo_generate_from_prompt:
  "generate_from_prompt demo_model demo_tokenizer ''a'' demo_greedy demo_world =
     (Inr [7, 1, 2, 2, 2, 2],
      \<lparr>lib_state = 1, logs = [], stdout = [], calls = [Call_generate [7] demo_greedy]\<rparr>)"
  by (simp add: generate_from_prompt_def demo_model_def demo_tokenizer_def demo_greedy_def
        demo_world_def)

lemma demo_run1:
  "completion demo_lib demo_service ''a'' demo_greedy True demo_world =
     (Return \<lparr>context_token = 1, new_token = 5, response_text = ''xx''\<rparr>, demo_service,
      \<lparr>lib_state = 3,
       logs = [(INFO, Msg_external ''generation config''), (INFO, Msg_speed 2 (5 / 2) 5 1)],
       stdout = [], calls = [Call_generate [7] demo_greedy]\<rparr>)"
  by (simp add: completion_def get_model_response_def locked_section_def
        get_max_text_length_def py_max_def demo_defs)

lemma demo_run2:
  "completion demo_lib demo_service ''a'' demo_greedy True
     \<lparr>lib_state = 3,
       logs = [(INFO, Msg_external ''generation config''), (INFO, Msg_speed 2 (5 / 2) 5 1)],
       stdout = [], calls = [Call_generate [7] demo_greedy]\<rparr> =
     (Return \<lparr>context_token = 1, new_token = 5, response_text = ''xx''\<rparr>, demo_service,
      \<lparr>lib_state = 6,
       logs = [(INFO, Msg_external ''generation config''), (INFO, Msg_speed 2 (5 / 2) 5 1),
               (INFO, Msg_external ''generation config''), (INFO, Msg_speed 2 (5 / 2) 5 1)],
       stdout = [], calls = [Call_generate [7] demo_greedy, Call_generate [7] demo_greedy]\<rparr>)"
  by (simp add: completion_def get_model_response_def locked_section_def
        get_max_text_length_def py_max_def demo_defs)

lemma demo_model_greedy_deterministic:
  "\<not> do_sample g \<Longrightarrow>
     fst (generate (model demo_service) toks g r) = fst (generate (model demo_service) toks g r')"
  by (simp add: demo_service_def demo_model_def)

section \<open>The trust check of the loader\<close>

text \<open>\<open>py_in\<close> is containment as a contiguous sublist.\<close>

lemma py_in_sublist: "py_in sub s \<longleftrightarrow> sublist sub s"
  by (induction s) (simp_all add: sublist_Cons_right)

text \<open>
  Without the trust flag, each of the three versions named in the message is refused, and
  the world is as it was: nothing has been logged and no loader has run.
\<close>

lemma load_model_refuses_listed_versions:
  assumes "trust_remote_code args = False"
    and "model_version args \<in> {''0.5'', ''0.7'', ''0.8''}"
  shows "load_model L args w = (Raise (ValueError trust_error_message), w)"
  using assms by (auto simp add: load_model_def)

text \<open>
  The refusal happens exactly when the flag is off and the version string occurs somewhere
  in the text \<^verbatim>\<open>"0.5 0.7 0.8"\<close>; on every other path the log has grown by the line
  \<^verbatim>\<open>loading model ...\<close>.
\<close>

lemma load_model_logs:
  "\<not> (trust_remote_code args = False \<and> py_in (model_version args) ''0.5 0.7 0.8'') \<Longrightarrow>
     logs (snd (load_model L args w)) = logs w @ [(INFO, Msg_loading_model)]"
  by (auto simp add: load_model_def Let_def split: prod.splits sum.splits)

lemma load_model_config_error_iff:
  "load_model L args w = (Raise (ValueError trust_error_message), w)
     \<longleftrightarrow> trust_remote_code args = False \<and> py_in (model_version args) ''0.5 0.7 0.8''"
proof
  assume r: "load_model L args w = (Raise (ValueError trust_error_message), w)"
  show "trust_remote_code args = False \<and> py_in (model_version args) ''0.5 0.7 0.8''"
  proof (rule ccontr)
    assume "\<not> (trust_remote_code args = False \<and> py_in (model_version args) ''0.5 0.7 0.8'')"
    from load_model_logs[OF this, of L w] r show False by simp
  qed
next
  assume "trust_remote_code args = False \<and> py_in (model_version args) ''0.5 0.7 0.8''"
  then show "load_model L args w = (Raise (ValueError trust_error_message), w)"
    by (simp add: load_model_def)
qed

text \<open>
  C1, the code at the failing input.  With the trust flag off and the version string
  \<^verbatim>\<open>"0"\<close>, which is none of 0.5, 0.7 and 0.8, \<open>load_model\<close> raises the configuration error
  before anything is loaded: the test of line 47 asks whether the version occurs inside the
  text \<^verbatim>\<open>"0.5 0.7 0.8"\<close>, and \<^verbatim>\<open>"0"\<close> does.
\<close>

theorem load_model_substring_version_raises:
  "load_model L (c\<lparr>trust_remote_code := False, model_version := ''0''\<rparr>) w
     = (Raise (ValueError trust_error_message), w)
   \<and> ''0'' \<notin> {''0.5'', ''0.7'', ''0.8''}"
  by (simp add: load_model_def)

section \<open>The maximal text length\<close>

text \<open>
  C5.  For every integer \<open>len\<close>, and so for every non-negative one, zero and the very
  large ones included, \<open>get_max_text_length\<close> returns the maximum of the configured
  \<open>text_length\<close> and \<open>len\<close>.
\<close>

theorem get_max_text_length_is_max:
  "get_max_text_length self len = max (text_length (cfg self)) len"
  by (simp add: get_max_text_length_def py_max_def max_def)

text \<open>C5 at length 0 and at a length far above the default of 512.\<close>

theorem get_max_text_length_is_max_witness:
  "get_max_text_length demo_service 0 = 512
   \<and> get_max_text_length demo_service 1000000 = 1000000"
  using get_max_text_length_is_max [of demo_service 0]
        get_max_text_length_is_max [of demo_service 1000000]
  by (simp add: demo_service_def demo_cfg_def SakuraModelConfig_new_def)

section \<open>The version guard\<close>

text \<open>
  C3.  Once \<open>load_model\<close> has returned the pair \<open>(tk, md)\<close>, construction ends the process
  with \<^verbatim>\<open>exit(-1)\<close>, a non-zero status, when one of \<^verbatim>\<open>sakura_name\<close>, \<^verbatim>\<open>sakura_version\<close>,
  \<^verbatim>\<open>sakura_quant\<close> is missing from the model's config or the reported version is not the
  declared one.  Otherwise it returns the service object, in which the configuration
  record carries the model's name, version and quant.
\<close>

theorem SakuraModel_init_version_guard:
  assumes "load_model L c w = (Return (tk, md), w1)"
  shows "(if config md ''sakura_name'' = None \<or> config md ''sakura_version'' = None
             \<or> config md ''sakura_quant'' = None
             \<or> config md ''sakura_version'' \<noteq> Some (Some (model_version c))
          then (\<exists>w2. SakuraModel_init L c w = (Exit (- 1), w2)) \<and> exit_status (- 1) \<noteq> 0
          else (\<exists>name version quant.
                  config md ''sakura_name'' = Some name
                \<and> config md ''sakura_version'' = Some (Some version)
                \<and> config md ''sakura_quant'' = Some quant
                \<and> SakuraModel_init L c w =
                    (Return \<lparr>cfg = c\<lparr>model_name := name, model_version := version,
                                      model_quant := quant\<rparr>,
                             lock = False, tokenizer = tk, model = md\<rparr>, w1)))"
  using assms
  by (auto simp add: SakuraModel_init_def exit_status_def Let_def split: option.splits)

text \<open>
  C3 on the instance: declared as 0.9 the construction succeeds and fills the three
  fields; declared as 0.10 against a checkpoint that reports 0.9 it exits.
\<close>

theorem SakuraModel_init_version_guard_witness:
  "SakuraModel_init demo_lib demo_cfg demo_world =
     (Return \<lparr>cfg = demo_cfg\<lparr>model_name := Some ''Sakura-13B'', model_version := ''0.9'',
                               model_quant := Some ''Q4''\<rparr>,
              lock = False, tokenizer = demo_tokenizer, model = demo_model\<rparr>,
      \<lparr>lib_state = 2, logs = [(INFO, Msg_loading_model)], stdout = [], calls = []\<rparr>)
   \<and> fst (SakuraModel_init demo_lib (demo_cfg\<lparr>model_version := ''0.10''\<rparr>) demo_world)
       = Exit (- 1)"
  using SakuraModel_init_version_guard [OF demo_load]
        SakuraModel_init_version_guard [OF demo_load_mismatch]
  by (auto simp add: demo_model_def demo_cfg_def SakuraModelConfig_new_def)

section \<open>Completion: frame, text length, determinism\<close>

lemma get_model_response_self:
  "fst (snd (get_model_response L self md tk prompt version gc text_len ps w)) = self"
  by (cases "lock self")
     (auto simp: get_model_response_def Let_def split: prod.splits sum.splits)

lemma get_model_response_returns:
  assumes "fst (get_model_response L self md tk prompt version gc text_len ps w) = Return resp"
  shows "\<exists>toks generation response r r'.
           encode tk prompt = Inr toks
         \<and> generate md toks gc r = (Inr generation, r')
         \<and> decode tk generation = Inr response
         \<and> resp = \<lparr>context_token = int (length toks),
                    new_token = int (length generation) - int (length toks),
                    response_text = split_response L response version\<rparr>"
proof -
  from assms have nl: "\<not> lock self"
    by (auto simp: get_model_response_def)
  obtain t0 r0 where a: "time_time L (lib_state w) = (t0, r0)"
    by (cases "time_time L (lib_state w)")
  from assms nl a obtain toks where t: "encode tk prompt = Inr toks"
    by (cases "encode tk prompt") (auto simp: get_model_response_def locked_section_def Let_def)
  obtain gres r1 where g: "generate md toks gc r0 = (gres, r1)"
    by (cases "generate md toks gc r0")
  from assms nl a t g obtain generation where gr: "gres = Inr generation"
    by (cases gres) (auto simp: get_model_response_def locked_section_def Let_def)
  from assms nl a t g gr obtain response where d: "decode tk generation = Inr response"
    by (cases "decode tk generation")
       (auto simp: get_model_response_def locked_section_def Let_def)
  from assms nl a t g gr d
  have "resp = \<lparr>context_token = int (length toks),
                new_token = int (length generation) - int (length toks),
                response_text = split_response L response version\<rparr>"
    by (auto simp: get_model_response_def locked_section_def Let_def
             split: prod.splits if_splits)
  with t g gr d show ?thesis by blast
qed

text \<open>
  C10.  After \<open>completion\<close>, and after \<open>get_model_response\<close>, the service object is the one
  the call started with: the configuration record, the tokenizer, the model and the lock
  are unchanged, whatever the outcome.  A returned response is the record built from the
  number of prompt tokens, the number of new tokens and the extracted text.
\<close>

theorem completion_frame:
  "fst (snd (completion L self prompt gc ps w)) = self
   \<and> fst (snd (get_model_response L self md tk prompt version gc text_len ps w)) = self
   \<and> (\<forall>resp. fst (completion L self prompt gc ps w) = Return resp \<longrightarrow>
        (\<exists>toks generation response r r'.
            encode (tokenizer self) prompt = Inr toks
          \<and> generate (model self) toks gc r = (Inr generation, r')
          \<and> decode (tokenizer self) generation = Inr response
          \<and> resp = \<lparr>context_token = int (length toks),
                     new_token = int (length generation) - int (length toks),
                     response_text = split_response L response (model_version (cfg self))\<rparr>))"
  using get_model_response_returns
    [of L self "model self" "tokenizer self" prompt "model_version (cfg self)" gc
        "get_max_text_length self (int (length prompt))" ps
        "w\<lparr>logs := logs w @ log_generation_config L gc\<rparr>"]
  by (simp add: completion_def Let_def get_model_response_self)

text \<open>C10 on the instance: the call returns the response and the same service object.\<close>

theorem completion_frame_witness:
  "fst (completion demo_lib demo_service ''a'' demo_greedy True demo_world)
     = Return \<lparr>context_token = 1, new_token = 5, response_text = ''xx''\<rparr>
   \<and> fst (snd (completion demo_lib demo_service ''a'' demo_greedy True demo_world))
     = demo_service"
  using completion_frame [of demo_lib demo_service "''a''" demo_greedy True demo_world]
        demo_run1
  by simp

text \<open>
  C2 as stated fails: with a configured text length of 1 and a prompt of one character the
  effective maximum is 1, and the call returns a response with 5 new tokens.
\<close>

theorem completion_exceeds_max_text_length_counterexample:
  "fst (completion demo_lib short_service ''a'' demo_greedy False demo_world)
     = Return \<lparr>context_token = 1, new_token = 5, response_text = ''xx''\<rparr>
   \<and> get_max_text_length short_service (int (length ''a'')) = 1
   \<and> \<not> new_token \<lparr>context_token = 1, new_token = 5, response_text = ''xx''\<rparr>
         \<le> get_max_text_length short_service (int (length ''a''))"
  by (simp add: completion_def get_model_response_def locked_section_def
        get_max_text_length_def py_max_def short_service_def demo_defs)

text \<open>
  C2 as amended.  \<open>completion\<close> calls \<open>get_model_response\<close> with the maximum of the
  configured \<open>text_length\<close> and the prompt's length as the argument \<open>text_length\<close>, and
  \<open>get_model_response\<close> gives the same result for every value of that argument: the
  generation is whatever the model produces under the caller's generation configuration.
\<close>

theorem completion_text_length_unused:
  "completion L self prompt gc ps w =
     get_model_response L self (model self) (tokenizer self) prompt (model_version (cfg self)) gc
       (max (text_length (cfg self)) (int (length prompt))) ps
       (w\<lparr>logs := logs w @ log_generation_config L gc\<rparr>)
   \<and> get_model_response L self md tk prompt version gc text_len ps w
     = get_model_response L self md tk prompt version gc text_len' ps w"
  by (simp add: completion_def Let_def get_model_response_def get_max_text_length_def
        py_max_def max_def)

text \<open>C2 as amended, on the instance: text lengths 1 and 512 give the same response.\<close>

theorem completion_text_length_unused_witness:
  "get_model_response demo_lib demo_service demo_model demo_tokenizer ''a'' ''0.9'' demo_greedy
     1 False demo_world
   = get_model_response demo_lib demo_service demo_model demo_tokenizer ''a'' ''0.9'' demo_greedy
     512 False demo_world"
  using completion_text_length_unused
    [of demo_lib demo_service "''a''" demo_greedy False demo_world demo_model demo_tokenizer
        "''0.9''" 1 512]
  by simp

text \<open>
  When the model's \<^verbatim>\<open>generate\<close> does not depend on the library state for configurations
  that do not sample, neither does what the locked section computes from it.
\<close>

lemma locked_section_outcome:
  assumes "\<And>toks g r r'. \<not> do_sample g \<Longrightarrow>
             fst (generate md toks g r) = fst (generate md toks g r')"
    and "\<not> do_sample gc"
  shows "map_sum id (\<lambda>(t0, n, k, out, t1). (n, k, out))
           (fst (locked_section L md tk prompt version gc w))
       = map_sum id (\<lambda>(t0, n, k, out, t1). (n, k, out))
           (fst (locked_section L md tk prompt version gc w'))"
proof (cases "encode tk prompt")
  case (Inl e)
  then show ?thesis
    by (simp add: locked_section_def Let_def split: prod.splits)
next
  case (Inr toks)
  obtain t0 r0 where a: "time_time L (lib_state w) = (t0, r0)"
    by (cases "time_time L (lib_state w)")
  obtain t0' r0' where b: "time_time L (lib_state w') = (t0', r0')"
    by (cases "time_time L (lib_state w')")
  obtain g r1 where c: "generate md toks gc r0 = (g, r1)"
    by (cases "generate md toks gc r0")
  obtain g' r1' where d: "generate md toks gc r0' = (g', r1')"
    by (cases "generate md toks gc r0'")
  from assms(1)[OF assms(2), of toks r0 r0'] c d have "g = g'" by simp
  with Inr a b c d show ?thesis
    by (simp add: locked_section_def Let_def split: prod.splits sum.splits)
qed

lemma get_model_response_outcome:
  assumes "\<And>toks g r r'. \<not> do_sample g \<Longrightarrow>
             fst (generate md toks g r) = fst (generate md toks g r')"
    and "\<not> do_sample gc"
  shows "(\<forall>r1 r2. fst (get_model_response L self md tk prompt version gc len1 ps w) = Return r1
            \<and> fst (get_model_response L self md tk prompt version gc len2 ps' w') = Return r2
            \<longrightarrow> r1 = r2)
       \<and> fst (get_model_response L self md tk prompt version gc len1 False w)
         = fst (get_model_response L self md tk prompt version gc len2 False w')"
  using locked_section_outcome[OF assms, of L tk prompt version w w']
  by (cases "fst (locked_section L md tk prompt version gc w)";
      cases "fst (locked_section L md tk prompt version gc w')")
     (auto simp: get_model_response_def Let_def split: prod.splits sum.splits if_splits)

text \<open>
  C8.  Take a model whose \<^verbatim>\<open>generate\<close> gives the same result in every library state
  whenever the configuration does not sample, and a configuration that does not sample.
  Run \<open>completion\<close> twice in a row on the same prompt and configuration.  If both runs
  return a response, the two texts are equal; with the speed line off, the two outcomes
  are equal altogether.
\<close>

theorem completion_deterministic_text:
  assumes det: "\<And>toks g r r'. \<not> do_sample g \<Longrightarrow>
                  fst (generate (model self) toks g r) = fst (generate (model self) toks g r')"
    and greedy: "\<not> do_sample gc"
    and run1: "completion L self prompt gc ps w = (out1, self1, w1)"
    and run2: "completion L self1 prompt gc ps w1 = (out2, self2, w2)"
  shows "(\<forall>r1 r2. out1 = Return r1 \<and> out2 = Return r2 \<longrightarrow> response_text r1 = response_text r2)
       \<and> (\<not> ps \<longrightarrow> out1 = out2)"
proof -
  from run1 have s: "self1 = self"
    using get_model_response_self[of L self "model self" "tokenizer self" prompt]
    by (simp add: completion_def Let_def) (metis fst_conv snd_conv)
  let ?wa = "w\<lparr>logs := logs w @ log_generation_config L gc\<rparr>"
  let ?wb = "w1\<lparr>logs := logs w1 @ log_generation_config L gc\<rparr>"
  let ?len = "get_max_text_length self (int (length prompt))"
  from run1 have o1: "out1 = fst (get_model_response L self (model self) (tokenizer self) prompt
        (model_version (cfg self)) gc ?len ps ?wa)"
    by (simp add: completion_def Let_def)
  from run2 s have o2: "out2 = fst (get_model_response L self (model self) (tokenizer self) prompt
        (model_version (cfg self)) gc ?len ps ?wb)"
    by (simp add: completion_def Let_def)
  from get_model_response_outcome[OF det greedy, of L self "tokenizer self" prompt
        "model_version (cfg self)" ?len ps ?wa ?len ps ?wb] o1 o2
  show ?thesis
    by (cases ps) auto
qed

text \<open>
  C8 on the instance: two runs in a row, the second in the world the first has left,
  return the same text.  The instance's model is deterministic without sampling and is
  not with it.
\<close>

theorem completion_deterministic_text_witness:
  "\<not> do_sample demo_greedy
   \<and> fst (completion demo_lib demo_service ''a'' demo_greedy True demo_world)
     = Return \<lparr>context_token = 1, new_token = 5, response_text = ''xx''\<rparr>
   \<and> fst (completion demo_lib demo_service ''a'' demo_greedy True
          (snd (snd (completion demo_lib demo_service ''a'' demo_greedy True demo_world))))
     = Return \<lparr>context_token = 1, new_token = 5, response_text = ''xx''\<rparr>
   \<and> fst (generate demo_model [7] (backup_generation_config_stage2 1) 0)
       \<noteq> fst (generate demo_model [7] (backup_generation_config_stage2 1) 1)"
  using completion_deterministic_text [OF demo_model_greedy_deterministic _ demo_run1 demo_run2]
        demo_run1 demo_run2
  by (simp add: demo_greedy_def demo_model_def backup_generation_config_stage2_def)

section \<open>The self-test\<close>

text \<open>
  C6.  When the registry has a test case for the declared version and \<open>completion\<close>, run
  on the test prompt with the test configuration and with the speed line off, returns a
  response, \<open>check_model_by_magic\<close> returns whether the expected text equals the
  response's text.  It appends the two debug lines to the log, and on a mismatch the four
  warnings: the notice, the prompt, the expected text and the response.
\<close>

theorem check_model_by_magic_exact_equality:
  assumes "get_test_case_by_model_version L (model_version (cfg self)) = Inr tc"
    and "completion L self (get_prompt L (test_input tc) (model_version (cfg self)))
           (generation_config tc) False w = (Return out, self1, w1)"
  shows "check_model_by_magic L self w =
           (Return (test_output tc = response_text out), self1,
            w1\<lparr>logs := logs w1 @
                 [(DEBUG, Msg_test_output out),
                  (DEBUG, Msg_debug_ground_truth (test_output tc))] @
                 (if test_output tc = response_text out then []
                  else [(WARNING, Msg_output_not_correct),
                        (WARNING, Msg_input
                           (get_prompt L (test_input tc) (model_version (cfg self)))),
                        (WARNING, Msg_ground_truth (test_output tc)),
                        (WARNING, Msg_current_output out)])\<rparr>)"
  using assms
  by (simp add: check_model_by_magic_def test_loaded_def Let_def)

text \<open>
  C6 on the instance: the service declared as 0.9 passes; declared as 0.10, whose test
  case expects another text, it returns false after the four warnings.
\<close>

theorem check_model_by_magic_exact_equality_witness:
  "check_model_by_magic demo_lib demo_service demo_world =
     (Return True, demo_service,
      \<lparr>lib_state = 3,
       logs = [(INFO, Msg_external ''generation config''),
               (DEBUG, Msg_test_output
                  \<lparr>context_token = 4, new_token = 5, response_text = ''xxxxx''\<rparr>),
               (DEBUG, Msg_debug_ground_truth ''xxxxx'')],
       stdout = [], calls = [Call_generate [7, 7, 7, 7] demo_greedy]\<rparr>)
   \<and> check_model_by_magic demo_lib other_service demo_world =
     (Return False, other_service,
      \<lparr>lib_state = 3,
       logs = [(INFO, Msg_external ''generation config''),
               (DEBUG, Msg_test_output
                  \<lparr>context_token = 4, new_token = 5, response_text = ''xxxxx''\<rparr>),
               (DEBUG, Msg_debug_ground_truth ''yes''),
               (WARNING, Msg_output_not_correct),
               (WARNING, Msg_input ''<hi>''),
               (WARNING, Msg_ground_truth ''yes''),
               (WARNING, Msg_current_output
                  \<lparr>context_token = 4, new_token = 5, response_text = ''xxxxx''\<rparr>)],
       stdout = [], calls = [Call_generate [7, 7, 7, 7] demo_greedy]\<rparr>)"
  using check_model_by_magic_exact_equality
    [of demo_lib demo_service
        "\<lparr>generation_config = demo_greedy, test_input = ''hi'', test_output = ''xxxxx''\<rparr>"
        demo_world "\<lparr>context_token = 4, new_token = 5, response_text = ''xxxxx''\<rparr>"
        demo_service
        "\<lparr>lib_state = 3, logs = [(INFO, Msg_external ''generation config'')],
          stdout = [], calls = [Call_generate [7, 7, 7, 7] demo_greedy]\<rparr>"]
    check_model_by_magic_exact_equality
    [of demo_lib other_service
        "\<lparr>generation_config = demo_greedy, test_input = ''hi'', test_output = ''yes''\<rparr>"
        demo_world "\<lparr>context_token = 4, new_token = 5, response_text = ''xxxxx''\<rparr>"
        other_service
        "\<lparr>lib_state = 3, logs = [(INFO, Msg_external ''generation config'')],
          stdout = [], calls = [Call_generate [7, 7, 7, 7] demo_greedy]\<rparr>"]
  by (simp add: completion_def get_model_response_def locked_section_def
        get_max_text_length_def py_max_def other_service_def demo_defs)

section \<open>The anti-degeneration path\<close>

declare degeneration_loop.simps [simp del]

lemma generate_calls_append:
  "generate_calls (xs @ ys) = generate_calls xs @ generate_calls ys"
  by (induction xs rule: generate_calls.induct) simp_all

lemma detector_calls_append:
  "detector_calls (xs @ ys) = detector_calls xs @ detector_calls ys"
  by (induction xs rule: detector_calls.induct) simp_all

text \<open>Calls are only ever added at the end of the trace.\<close>

lemma generate_from_prompt_calls:
  "\<exists>ext. calls (snd (generate_from_prompt md tk prompt gc w)) = calls w @ ext"
  by (simp add: generate_from_prompt_def split: sum.splits prod.splits)

lemma degeneration_loop_calls:
  "\<exists>ext. calls (snd (degeneration_loop L md tk prompt version backup stage generation w))
           = calls w @ ext"
proof (induction L md tk prompt version backup stage generation w
       rule: degeneration_loop.induct)
  case (1 L md tk prompt version backup stage generation w)
  let ?w1 = "w\<lparr>calls := calls w @ [Call_detect_degeneration generation version]\<rparr>"
  show ?case
  proof (cases "detect_degeneration L generation version \<and> \<not> stage + 1 > 2")
    case False
    then show ?thesis
      by (subst degeneration_loop.simps) (auto simp: Let_def)
  next
    case True
    obtain res w2
      where g: "generate_from_prompt md tk prompt (backup ! (stage + 1 - 1)) ?w1 = (res, w2)"
      by (cases "generate_from_prompt md tk prompt (backup ! (stage + 1 - 1)) ?w1")
    from generate_from_prompt_calls[of md tk prompt "backup ! (stage + 1 - 1)" ?w1] g
    obtain ext
      where e: "calls w2 = calls w @ [Call_detect_degeneration generation version] @ ext"
      by auto
    show ?thesis
    proof (cases res)
      case (Inl err)
      with True g e show ?thesis
        by (subst degeneration_loop.simps) (simp add: Let_def)
    next
      case (Inr generation')
      from True have d: "detect_degeneration L generation version"
        and st: "\<not> 2 < stage + 1"
        by auto
      from "1.IH"[OF refl d st g[symmetric] Inr]
      obtain ext' where
        "calls (snd (degeneration_loop L md tk prompt version backup (stage + 1) generation' w2))
           = calls w2 @ ext'"
        by auto
      with True g e Inr show ?thesis
        by (subst degeneration_loop.simps) (simp add: Let_def)
    qed
  qed
qed

text \<open>The loop starts by asking the detector about the generation it was entered with.\<close>

lemma degeneration_loop_calls_first:
  "\<exists>rest. calls (snd (degeneration_loop L md tk prompt version backup stage generation w))
           = calls w @ Call_detect_degeneration generation version # rest"
proof -
  let ?w1 = "w\<lparr>calls := calls w @ [Call_detect_degeneration generation version]\<rparr>"
  show ?thesis
  proof (cases "detect_degeneration L generation version \<and> \<not> stage + 1 > 2")
    case False
    then show ?thesis
      by (subst degeneration_loop.simps) (auto simp: Let_def)
  next
    case True
    obtain res w2
      where g: "generate_from_prompt md tk prompt (backup ! (stage + 1 - 1)) ?w1 = (res, w2)"
      by (cases "generate_from_prompt md tk prompt (backup ! (stage + 1 - 1)) ?w1")
    from generate_from_prompt_calls[of md tk prompt "backup ! (stage + 1 - 1)" ?w1] g
    obtain ext
      where e: "calls w2 = calls w @ [Call_detect_degeneration generation version] @ ext"
      by auto
    show ?thesis
    proof (cases res)
      case (Inl err)
      with True g e show ?thesis
        by (subst degeneration_loop.simps) (simp add: Let_def)
    next
      case (Inr generation')
      from degeneration_loop_calls[of L md tk prompt version backup "stage + 1" generation' w2]
      obtain ext' where
        "calls (snd (degeneration_loop L md tk prompt version backup (stage + 1) generation' w2))
           = calls w2 @ ext'"
        by auto
      with True g e Inr show ?thesis
        by (subst degeneration_loop.simps) (simp add: Let_def)
    qed
  qed
qed

text \<open>
  C7.  Let the initial generation succeed with the sequence \<open>generation\<close>.  If its length
  exceeds twice \<open>text_length\<close>, the next call in the trace is the detector on that
  sequence.  Otherwise the result is the decoded and post-processed initial generation,
  in the world the initial generation left: the detector has not been called and the one
  \<^verbatim>\<open>generate\<close> call is the initial one.
\<close>

theorem anti_degen_detector_iff_long:
  assumes "generate_from_prompt md tk prompt gc w = (Inr generation, w1)"
  shows "if int (length generation) > 2 * text_len
         then (\<exists>rest. calls (snd (get_model_response_anti_degen L md tk prompt version gc
                                   text_len w))
                        = calls w1 @ Call_detect_degeneration generation version # rest)
         else get_model_response_anti_degen L md tk prompt version gc text_len w
                = (case decode tk generation of
                     Inl e \<Rightarrow> Raise e
                   | Inr response \<Rightarrow> Return (split_response L response version), w1)
              \<and> detector_calls (calls w1) = detector_calls (calls w)
              \<and> generate_calls (calls w1) = generate_calls (calls w) @ [gc]"
proof (cases "int (length generation) > 2 * text_len")
  case True
  let ?bk = "[backup_generation_config_stage2 text_len, backup_generation_config_stage3 text_len]"
  obtain res w2
    where l: "degeneration_loop L md tk prompt version ?bk 0 generation w1 = (res, w2)"
    by (cases "degeneration_loop L md tk prompt version ?bk 0 generation w1")
  from degeneration_loop_calls_first[of L md tk prompt version ?bk 0 generation w1] l
  obtain rest where "calls w2 = calls w1 @ Call_detect_degeneration generation version # rest"
    by auto
  with True assms l show ?thesis
    by (auto simp: get_model_response_anti_degen_def Let_def split: sum.splits)
next
  case False
  from assms have "detector_calls (calls w1) = detector_calls (calls w)
      \<and> generate_calls (calls w1) = generate_calls (calls w) @ [gc]"
    by (auto simp: generate_from_prompt_def Let_def detector_calls_append generate_calls_append
             split: sum.splits prod.splits)
  with False assms show ?thesis
    by (auto simp: get_model_response_anti_degen_def Let_def split: sum.splits)
qed

text \<open>
  C7 on the instance, whose initial generation has six tokens: with text length 1 the
  detector is called on it; with text length 3 the text is returned after the one
  \<^verbatim>\<open>generate\<close> call.
\<close>

theorem anti_degen_detector_iff_long_witness:
  "(\<exists>rest. calls (snd (get_model_response_anti_degen demo_lib demo_model demo_tokenizer ''a''
                          ''0.9'' demo_greedy 1 demo_world))
            = [Call_generate [7] demo_greedy,
               Call_detect_degeneration [7, 1, 2, 2, 2, 2] ''0.9''] @ rest)
   \<and> get_model_response_anti_degen demo_lib demo_model demo_tokenizer ''a'' ''0.9'' demo_greedy 3
       demo_world =
       (Return ''xx'',
        \<lparr>lib_state = 1, logs = [], stdout = [], calls = [Call_generate [7] demo_greedy]\<rparr>)"
  using anti_degen_detector_iff_long [OF demo_generate_from_prompt, of 1 demo_lib "''0.9''"]
        anti_degen_detector_iff_long [OF demo_generate_from_prompt, of 3 demo_lib "''0.9''"]
  by (simp add: demo_lib_def demo_tokenizer_def)

text \<open>
  C4 as stated fails: the detector of the instance flags every sequence, the initial
  generation has six tokens, and with text length 3 the function returns after the
  initial \<^verbatim>\<open>generate\<close> call alone, with no fallback regeneration.
\<close>

theorem anti_degen_short_generation_counterexample:
  "detect_degeneration demo_lib [7, 1, 2, 2, 2, 2] ''0.9''
   \<and> get_model_response_anti_degen demo_lib demo_model demo_tokenizer ''a'' ''0.9'' demo_greedy 3
       demo_world =
       (Return ''xx'',
        \<lparr>lib_state = 1, logs = [], stdout = [], calls = [Call_generate [7] demo_greedy]\<rparr>)"
  by (simp add: get_model_response_anti_degen_def generate_from_prompt_def
        demo_lib_def demo_model_def demo_tokenizer_def demo_greedy_def demo_world_def)

text \<open>
  C4 as amended.  Let the initial generation be longer than twice \<open>text_length\<close>, and let
  the detector flag it and both fallback generations.  Then the calls are, in order: the
  initial generation, the detector, the stage 2 generation, the detector, the stage 3
  generation, the detector; there is no further \<^verbatim>\<open>generate\<close> call; the give-up message is
  printed; and the result is the post-processed text of the stage 3 generation.
\<close>

theorem anti_degen_gives_up_after_two_fallbacks:
  assumes "encode tk prompt = Inr toks"
    and "generate md toks gc (lib_state w) = (Inr g0, r1)"
    and "int (length g0) > 2 * text_len"
    and "generate md toks (backup_generation_config_stage2 text_len) r1 = (Inr g1, r2)"
    and "generate md toks (backup_generation_config_stage3 text_len) r2 = (Inr g2, r3)"
    and "detect_degeneration L g0 version"
    and "detect_degeneration L g1 version"
    and "detect_degeneration L g2 version"
    and "decode tk g2 = Inr response"
  shows "get_model_response_anti_degen L md tk prompt version gc text_len w =
           (Return (split_response L response version),
            w\<lparr>lib_state := r3,
              calls := calls w @
                [Call_generate toks gc,
                 Call_detect_degeneration g0 version,
                 Call_generate toks (backup_generation_config_stage2 text_len),
                 Call_detect_degeneration g1 version,
                 Call_generate toks (backup_generation_config_stage3 text_len),
                 Call_detect_degeneration g2 version],
              stdout := stdout w @ [''model degeneration cannot be avoided.'']\<rparr>)"
  using assms
  by (simp add: get_model_response_anti_degen_def generate_from_prompt_def
        degeneration_loop.simps Let_def)

text \<open>C4 as amended, on the instance with text length 1.\<close>

theorem anti_degen_gives_up_after_two_fallbacks_witness:
  "get_model_response_anti_degen demo_lib demo_model demo_tokenizer ''a'' ''0.9'' demo_greedy 1
     demo_world =
     (Return ''xx'',
      \<lparr>lib_state = 3, logs = [],
       stdout = [''model degeneration cannot be avoided.''],
       calls = [Call_generate [7] demo_greedy,
                Call_detect_degeneration [7, 1, 2, 2, 2, 2] ''0.9'',
                Call_generate [7] (backup_generation_config_stage2 1),
                Call_detect_degeneration [7, 1, 2, 2, 2, 2] ''0.9'',
                Call_generate [7] (backup_generation_config_stage3 1),
                Call_detect_degeneration [7, 2, 2, 2, 2, 2] ''0.9'']\<rparr>)"
  using anti_degen_gives_up_after_two_fallbacks
    [where tk = demo_tokenizer and prompt = "''a''" and toks = "[7]" and md = demo_model
       and gc = demo_greedy and w = demo_world and ?g0.0 = "[7, 1, 2, 2, 2, 2]" and ?r1.0 = 1
       and text_len = 1 and ?g1.0 = "[7, 1, 2, 2, 2, 2]" and ?r2.0 = 2
       and ?g2.0 = "[7, 2, 2, 2, 2, 2]" and ?r3.0 = 3 and L = demo_lib and version = "''0.9''"
       and response = "''xxxxxx''"]
  by (simp add: demo_lib_def demo_model_def demo_tokenizer_def demo_greedy_def demo_world_def
        backup_generation_config_stage2_def backup_generation_config_stage3_def)

end
